theory Spec2Isabelle
  imports Main
begin

section \<open>JavaScript values read by the webhook handler\<close>

text \<open>
  The webhook handler works on the result of \<open>JSON.parse\<close> (\<open>event\<close>, \<open>data: any\<close>), so
  the model needs the values of JavaScript that JSON can produce, and \<open>undefined\<close>, which
  a read of an absent property gives. Numbers are integers here: amounts are stored in
  kobo, the minor currency unit. An object is the association list of its own properties.
\<close>

datatype js =
    Undefined
  | JNull
  | JBool bool
  | JNum int
  | JStr string
  | JArr "js list"
  | JObj "(string \<times> js) list"

text \<open>
  \<open>v.k\<close>: a \<open>TypeError\<close> (the value \<open>None\<close>) on \<open>undefined\<close> and \<open>null\<close>, the own
  property on an object, \<open>undefined\<close> when it is absent. The handler reads only the names
  event, data, reference, amount, metadata, orderId, customerPhone, customerName and
  orderNumber, none of which is a property of a boolean, a number, a string or an array,
  nor inherited from \<open>Object.prototype\<close>.
\<close>

fun member :: "js \<Rightarrow> string \<Rightarrow> js option" where
  "member Undefined k = None"
| "member JNull k = None"
| "member (JObj kvs) k = (case map_of kvs k of None \<Rightarrow> Some Undefined | Some v \<Rightarrow> Some v)"
| "member v k = Some Undefined"

text \<open>\<open>v?.k\<close>: \<open>undefined\<close> instead of the \<open>TypeError\<close>.\<close>

definition opt_member :: "js \<Rightarrow> string \<Rightarrow> js" where
  "opt_member v k = (case member v k of None \<Rightarrow> Undefined | Some x \<Rightarrow> x)"

text \<open>What \<open>if (v)\<close>, \<open>!v\<close>, \<open>a && b\<close> and \<open>a || b\<close> test.\<close>

fun truthy :: "js \<Rightarrow> bool" where
  "truthy Undefined = False"
| "truthy JNull = False"
| "truthy (JBool b) = b"
| "truthy (JNum n) = (n \<noteq> 0)"
| "truthy (JStr s) = (s \<noteq> [])"
| "truthy (JArr xs) = True"
| "truthy (JObj kvs) = True"

text \<open>\<open>a || b\<close> on values.\<close>

definition js_or :: "js \<Rightarrow> js \<Rightarrow> js" where
  "js_or a b = (if truthy a then a else b)"

section \<open>The external services and the calls made to them\<close>

text \<open>
  \<open>PaymentStatus\<close> and \<open>OrderStatus\<close> are enums of \<open>@/lib/types\<close>. The handler uses
  \<open>PaymentStatus.PAID\<close>, \<open>PaymentStatus.FAILED\<close> and \<open>OrderStatus.CONFIRMED\<close>; the
  specification names pending as the third payment status. The members of \<open>OrderStatus\<close>
  that the handler never names are kept apart under \<open>OtherOrderStatus\<close>.
\<close>

datatype PaymentStatus = PENDING | PAID | FAILED

datatype OrderStatus = CONFIRMED | OtherOrderStatus string

text \<open>
  One constructor for each method of \<open>databaseService\<close> and \<open>whatsappService\<close> that the
  handler calls, with the arguments of the call.
\<close>

datatype call =
    UpdateOrderPaymentStatus js PaymentStatus js js
  | UpdateOrderStatus js OrderStatus string string
  | SendPickupConfirmation js js js
  | SendPaymentReminder js js js js

text \<open>An awaited call either resolves to a value or rejects, which \<open>await\<close> throws.\<close>

datatype 'a outcome = Returned 'a | Threw

text \<open>
  Everything the handler takes from outside the file: the environment variable, the
  keyed hash of \<open>crypto\<close> (secret first, then the body; the result is the hex digest),
  \<open>JSON.parse\<close> (\<open>None\<close> is its \<open>SyntaxError\<close>), and the four service methods. A service
  method acts on the outside world \<open>'w\<close> (the document store, the messages sent) and
  resolves to the \<open>success\<close> flag of its \<open>ApiResponse\<close>, or rejects.
\<close>

record 'w env =
  PAYSTACK_SECRET_KEY :: "string option"
  hmac_sha512_hex :: "string \<Rightarrow> string \<Rightarrow> string"
  JSON_parse :: "string \<Rightarrow> js option"
  updateOrderPaymentStatus :: "js \<Rightarrow> PaymentStatus \<Rightarrow> js \<Rightarrow> js \<Rightarrow> 'w \<Rightarrow> bool outcome \<times> 'w"
  updateOrderStatus :: "js \<Rightarrow> OrderStatus \<Rightarrow> string \<Rightarrow> string \<Rightarrow> 'w \<Rightarrow> bool outcome \<times> 'w"
  sendPickupConfirmation :: "js \<Rightarrow> js \<Rightarrow> js \<Rightarrow> 'w \<Rightarrow> bool outcome \<times> 'w"
  sendPaymentReminder :: "js \<Rightarrow> js \<Rightarrow> js \<Rightarrow> js \<Rightarrow> 'w \<Rightarrow> bool outcome \<times> 'w"

text \<open>
  The state threaded through a request: the outside world and the calls made so far,
  oldest first.
\<close>

record 'w sys =
  world :: 'w
  calls :: "call list"

definition invoke :: "call \<Rightarrow> ('w \<Rightarrow> 'a outcome \<times> 'w) \<Rightarrow> 'w sys \<Rightarrow> 'a outcome \<times> 'w sys" where
  "invoke c f s =
     (case f (world s) of (r, w') \<Rightarrow> (r, \<lparr>world = w', calls = calls s @ [c]\<rparr>))"

section \<open>The webhook route\<close>

text \<open>\<open>verifyPaystackSignature\<close>: \<open>!secret\<close> holds for an unset and for an empty secret.\<close>

definition verifyPaystackSignature :: "'w env \<Rightarrow> string \<Rightarrow> string \<Rightarrow> bool" where
  "verifyPaystackSignature env body signature =
     (case PAYSTACK_SECRET_KEY env of
        None \<Rightarrow> False
      | Some secret \<Rightarrow>
          if secret = [] then False
          else hmac_sha512_hex env secret body = signature)"

text \<open>
  \<open>handlePaymentSuccess\<close>. The whole body is inside \<open>try\<close>, and \<open>catch\<close> only logs, so a
  throw ends the function with the state reached. The destructuring of \<open>data\<close> throws on
  \<open>undefined\<close> and \<open>null\<close>. The properties of \<open>metadata\<close> are read after the test of
  \<open>metadata?.orderId\<close>; reading has no effect, so they are read together here.
\<close>

definition handlePaymentSuccess :: "'w env \<Rightarrow> js \<Rightarrow> 'w sys \<Rightarrow> 'w sys" where
  "handlePaymentSuccess env data s =
     (case (member data ''reference'', member data ''amount'', member data ''metadata'') of
        (Some reference, Some amount, Some metadata) \<Rightarrow>
          if \<not> truthy (opt_member metadata ''orderId'') then s
          else
            (case (member metadata ''orderId'', member metadata ''customerPhone'',
                   member metadata ''customerName'', member metadata ''orderNumber'') of
               (Some orderId, Some customerPhone, Some customerName, Some orderNumber) \<Rightarrow>
                 (case invoke (UpdateOrderPaymentStatus orderId PAID reference amount)
                         (updateOrderPaymentStatus env orderId PAID reference amount) s of
                    (Threw, s1) \<Rightarrow> s1
                  | (Returned success, s1) \<Rightarrow>
                      if success then
                        (case invoke (UpdateOrderStatus orderId CONFIRMED ''system''
                                        ''Payment confirmed - Order ready for pickup'')
                                (updateOrderStatus env orderId CONFIRMED ''system''
                                   ''Payment confirmed - Order ready for pickup'') s1 of
                           (Threw, s2) \<Rightarrow> s2
                         | (Returned r, s2) \<Rightarrow>
                             if truthy customerPhone \<and> truthy customerName then
                               snd (invoke (SendPickupConfirmation customerPhone customerName
                                              (js_or orderNumber orderId))
                                      (sendPickupConfirmation env customerPhone customerName
                                         (js_or orderNumber orderId)) s2)
                             else s2)
                      else s1)
             | _ \<Rightarrow> s)
      | _ \<Rightarrow> s)"

text \<open>
  \<open>handlePaymentFailed\<close>: the result of the write is not looked at; the reminder is sent
  after it unless the write threw.
\<close>

definition handlePaymentFailed :: "'w env \<Rightarrow> js \<Rightarrow> 'w sys \<Rightarrow> 'w sys" where
  "handlePaymentFailed env data s =
     (case (member data ''reference'', member data ''metadata'') of
        (Some reference, Some metadata) \<Rightarrow>
          if \<not> truthy (opt_member metadata ''orderId'') then s
          else
            (case (member metadata ''orderId'', member metadata ''customerPhone'',
                   member metadata ''customerName'', member metadata ''orderNumber'',
                   member metadata ''amount'') of
               (Some orderId, Some customerPhone, Some customerName, Some orderNumber,
                Some amount) \<Rightarrow>
                 (case invoke (UpdateOrderPaymentStatus orderId FAILED reference (JNum 0))
                         (updateOrderPaymentStatus env orderId FAILED reference (JNum 0)) s of
                    (Threw, s1) \<Rightarrow> s1
                  | (Returned r, s1) \<Rightarrow>
                      if truthy customerPhone \<and> truthy customerName then
                        snd (invoke (SendPaymentReminder customerPhone customerName
                                       (js_or orderNumber orderId) (js_or amount (JNum 0)))
                               (sendPaymentReminder env customerPhone customerName
                                  (js_or orderNumber orderId) (js_or amount (JNum 0))) s1)
                      else s1)
             | _ \<Rightarrow> s)
      | _ \<Rightarrow> s)"

text \<open>\<open>handleTransferSuccess\<close> and \<open>handleTransferFailed\<close> only log.\<close>

definition handleTransferSuccess :: "'w env \<Rightarrow> js \<Rightarrow> 'w sys \<Rightarrow> 'w sys" where
  "handleTransferSuccess env data s = s"

definition handleTransferFailed :: "'w env \<Rightarrow> js \<Rightarrow> 'w sys \<Rightarrow> 'w sys" where
  "handleTransferFailed env data s = s"

text \<open>The request as \<open>POST\<close> reads it, and the response of \<open>NextResponse.json\<close>.\<close>

record request =
  text_body :: string
  x_paystack_signature :: "string option"

record response =
  status_code :: nat
  payload :: js

definition error_response :: "nat \<Rightarrow> string \<Rightarrow> response" where
  "error_response code msg = \<lparr>status_code = code, payload = JObj [(''error'', JStr msg)]\<rparr>"

definition success_response :: response where
  "success_response = \<lparr>status_code = 200, payload = JObj [(''status'', JStr ''success'')]\<rparr>"

text \<open>
  \<open>POST\<close>. \<open>!signature\<close> holds for an absent header and for an empty one. Past the two
  checks, a throw of \<open>JSON.parse\<close> or of the read \<open>event.event\<close> (when the body is the
  JSON \<open>null\<close>) reaches the outer \<open>catch\<close>, which answers 500. The \<open>switch\<close> compares with
  \<open>===\<close>.
\<close>

definition POST :: "'w env \<Rightarrow> request \<Rightarrow> 'w sys \<Rightarrow> response \<times> 'w sys" where
  "POST env req s =
     (case x_paystack_signature req of
        None \<Rightarrow> (error_response 400 ''Missing signature'', s)
      | Some signature \<Rightarrow>
          if signature = [] then (error_response 400 ''Missing signature'', s)
          else if \<not> verifyPaystackSignature env (text_body req) signature
          then (error_response 400 ''Invalid signature'', s)
          else
            (case JSON_parse env (text_body req) of
               None \<Rightarrow> (error_response 500 ''Webhook processing failed'', s)
             | Some event \<Rightarrow>
                 (case (member event ''event'', member event ''data'') of
                    (Some ty, Some data) \<Rightarrow>
                      if ty = JStr ''charge.success''
                      then (success_response, handlePaymentSuccess env data s)
                      else if ty = JStr ''charge.failed''
                      then (success_response, handlePaymentFailed env data s)
                      else if ty = JStr ''transfer.success''
                      then (success_response, handleTransferSuccess env data s)
                      else if ty = JStr ''transfer.failed''
                      then (success_response, handleTransferFailed env data s)
                      else (success_response, s)
                  | _ \<Rightarrow> (error_response 500 ''Webhook processing failed'', s))))"

section \<open>The receipt page\<close>

text \<open>
  The fields of \<open>Order\<close> (\<open>@/lib/types\<close>) that the receipt page and the totals of the
  receipt read. Amounts are in kobo. Order items and services are passed through
  unread, so their types are left open.
\<close>

record Order =
  order_id :: string
  orderNumber :: string
  customerId :: string
  totalAmount :: int
  discountAmount :: int
  finalAmount :: int

record AuthUser =
  user_id :: string

text \<open>The result shape of the database service: \<open>{success, data?}\<close>.\<close>

record 'a ApiResponse =
  success :: bool
  data :: "'a option"

text \<open>The two reads of \<open>databaseService\<close> that the page makes.\<close>

record ('i, 'v) database =
  getOrderById :: "string \<Rightarrow> (Order \<times> 'i list) ApiResponse outcome"
  getActiveServices :: "('v list) ApiResponse outcome"





text \<open>
  The life of a mounted page is a list of runs of the effect. React runs the effect
  again when \<open>isAuthenticated\<close>, \<open>id\<close> or \<open>router\<close> changed, with the closure of the
  render that changed them, so each run has its own \<open>isAuthenticated\<close> and \<open>user\<close> (what
  \<open>useAuth()\<close> gave that render), its own store and its own \<open>id\<close>. Each run works on
  the state the earlier runs left. \<open>user\<close> is not among the dependencies: it may change
  between a run and a later render without a run in between.
\<close>

type_synonym ('i, 'v) run = "bool \<times> AuthUser option \<times> ('i, 'v) database \<times> string"




section \<open>The totals of the receipt\<close>

text \<open>
  A row of the totals block of \<open>OrderReceipt\<close>: its label, the text put before the
  amount, and the amount handed to \<open>formatNairaFromKobo\<close>.
\<close>

record total_row =
  label :: string
  prefix :: string
  amount :: int

text \<open>The discount row is rendered only for a positive discount.\<close>

definition total_rows :: "Order \<Rightarrow> total_row list" where
  "total_rows ord =
     [\<lparr>label = ''Subtotal:'', prefix = [], amount = totalAmount ord\<rparr>]
     @ (if discountAmount ord > 0
        then [\<lparr>label = ''Discount:'', prefix = ''-'', amount = discountAmount ord\<rparr>]
        else [])
     @ [\<lparr>label = ''Total:'', prefix = [], amount = finalAmount ord\<rparr>]"

text \<open>The text of a row, for a formatter \<open>fmt\<close> in the place of \<open>formatNairaFromKobo\<close>.\<close>

definition row_text :: "(int \<Rightarrow> string) \<Rightarrow> total_row \<Rightarrow> string \<times> string" where
  "row_text fmt r = (label r, prefix r @ fmt (amount r))"

text \<open>The totals block as displayed: label and text of each row.\<close>

definition receipt_totals :: "(int \<Rightarrow> string) \<Rightarrow> Order \<Rightarrow> (string \<times> string) list" where
  "receipt_totals fmt ord = map (row_text fmt) (total_rows ord)"

text \<open>
  Modelled from the spec: the invariant of the \<open>Order\<close> documents, "totalAmount -
  discountAmount = finalAmount" (data model, section 3). The code that creates and edits
  orders (\<open>@/lib/database\<close> and the booking form) is not among the sources; the receipt
  only reads the three amounts.
\<close>

definition order_invariant :: "Order \<Rightarrow> bool" where
  "order_invariant ord = (totalAmount ord - discountAmount ord = finalAmount ord)"

section \<open>A document store behind the two writes\<close>

text \<open>
  The part of an order document that the webhook's writes touch.
\<close>

record order_doc =
  paymentStatus :: PaymentStatus
  status :: OrderStatus

type_synonym store = "string \<Rightarrow> order_doc option"

text \<open>
  Modelled from the spec: \<open>databaseService.updateOrderPaymentStatus\<close> of \<open>@/lib/database\<close>,
  which is not among the sources. The specification says that the write sets the payment
  status of the order found by the identifier, and that a failing call is turned into a
  result whose \<open>success\<close> flag is false; so the write of an order that the store does not
  hold changes nothing and reports failure.
\<close>

definition store_updateOrderPaymentStatus ::
  "js \<Rightarrow> PaymentStatus \<Rightarrow> js \<Rightarrow> js \<Rightarrow> store \<Rightarrow> bool outcome \<times> store" where
  "store_updateOrderPaymentStatus orderId ps reference amt db =
     (case orderId of
        JStr k \<Rightarrow>
          (case db k of
             None \<Rightarrow> (Returned False, db)
           | Some d \<Rightarrow> (Returned True, db(k \<mapsto> d\<lparr>paymentStatus := ps\<rparr>)))
      | _ \<Rightarrow> (Returned False, db))"

text \<open>
  Modelled from the spec: \<open>databaseService.updateOrderStatus\<close> of \<open>@/lib/database\<close>, which
  is not among the sources; as above, for the status of the order.
\<close>

definition store_updateOrderStatus ::
  "js \<Rightarrow> OrderStatus \<Rightarrow> string \<Rightarrow> string \<Rightarrow> store \<Rightarrow> bool outcome \<times> store" where
  "store_updateOrderStatus orderId os actor note db =
     (case orderId of
        JStr k \<Rightarrow>
          (case db k of
             None \<Rightarrow> (Returned False, db)
           | Some d \<Rightarrow> (Returned True, db(k \<mapsto> d\<lparr>status := os\<rparr>)))
      | _ \<Rightarrow> (Returned False, db))"

text \<open>
  The environment over this store. The two notification methods do not touch the store;
  whether they resolve or reject is left to \<open>pickup\<close> and \<open>reminder\<close>.
\<close>

definition store_env ::
  "string option \<Rightarrow> (string \<Rightarrow> string \<Rightarrow> string) \<Rightarrow> (string \<Rightarrow> js option)
     \<Rightarrow> bool outcome \<Rightarrow> bool outcome \<Rightarrow> store env" where
  "store_env secret hmac parse pickup reminder =
     \<lparr>PAYSTACK_SECRET_KEY = secret,
      hmac_sha512_hex = hmac,
      JSON_parse = parse,
      updateOrderPaymentStatus = store_updateOrderPaymentStatus,
      updateOrderStatus = store_updateOrderStatus,
      sendPickupConfirmation = (\<lambda>phone name number db. (pickup, db)),
      sendPaymentReminder = (\<lambda>phone name number amt db. (reminder, db))\<rparr>"

section \<open>The worked examples\<close>

text \<open>The event of the specification's example, as text and as \<open>JSON.parse\<close> reads it.\<close>

definition example_body :: string where
  \<open>example_body = ''{"event":"charge.success","data":{"reference":"abc123","metadata":{"orderId":"o1","customerPhone":"+2348000000000","customerName":"Ada"}}}''\<close>

definition example_metadata :: js where
  "example_metadata =
     JObj [(''orderId'', JStr ''o1''), (''customerPhone'', JStr ''+2348000000000''),
           (''customerName'', JStr ''Ada'')]"

definition example_event :: js where
  "example_event =
     JObj [(''event'', JStr ''charge.success''),
           (''data'', JObj [(''reference'', JStr ''abc123''), (''metadata'', example_metadata)])]"

text \<open>A failed charge whose metadata names the order and nothing else.\<close>

definition failed_body :: string where
  \<open>failed_body = ''{"event":"charge.failed","data":{"reference":"abc124","metadata":{"orderId":"o1"}}}''\<close>

definition failed_event :: js where
  "failed_event =
     JObj [(''event'', JStr ''charge.failed''),
           (''data'', JObj [(''reference'', JStr ''abc124''),
                            (''metadata'', JObj [(''orderId'', JStr ''o1'')])])]"

text \<open>A failed charge whose metadata also carries the customer's phone and name.\<close>

definition reminder_body :: string where
  \<open>reminder_body = ''{"event":"charge.failed","data":{"reference":"abc125","metadata":{"orderId":"o1","customerPhone":"+2348000000000","customerName":"Ada","amount":250000}}}''\<close>

definition reminder_event :: js where
  "reminder_event =
     JObj [(''event'', JStr ''charge.failed''),
           (''data'', JObj [(''reference'', JStr ''abc125''),
                            (''metadata'', JObj [(''orderId'', JStr ''o1''),
                                                 (''customerPhone'', JStr ''+2348000000000''),
                                                 (''customerName'', JStr ''Ada''),
                                                 (''amount'', JNum 250000)])])]"

text \<open>
  \<open>JSON.parse\<close> on the texts of the examples; every other text used below, the empty
  body among them, is not JSON.
\<close>

definition example_parse :: "string \<Rightarrow> js option" where
  "example_parse =
     map_of [(example_body, example_event), (failed_body, failed_event),
             (reminder_body, reminder_event)]"

text \<open>
  A stand-in for the keyed hash in the examples. The theorems are about every function
  in its place; the examples need one that can be evaluated.
\<close>

definition example_hmac :: "string \<Rightarrow> string \<Rightarrow> string" where
  "example_hmac secret body = rev secret @ ''/'' @ body"

definition example_store :: store where
  "example_store =
     Map.empty(''o1'' \<mapsto> \<lparr>paymentStatus = PENDING, status = OtherOrderStatus ''pending''\<rparr>)"

definition example_env :: "store env" where
  "example_env =
     store_env (Some ''sk_test'') example_hmac example_parse (Returned True) (Returned True)"

definition example_sys :: "store sys" where
  "example_sys = \<lparr>world = example_store, calls = []\<rparr>"

definition signed_request :: "string \<Rightarrow> request" where
  "signed_request b =
     \<lparr>text_body = b, x_paystack_signature = Some (example_hmac ''sk_test'' b)\<rparr>"

text \<open>A request is validly signed when the header is there, not empty, and verifies.\<close>

definition validly_signed :: "'w env \<Rightarrow> request \<Rightarrow> bool" where
  "validly_signed env req =
     (case x_paystack_signature req of
        None \<Rightarrow> False
      | Some signature \<Rightarrow>
          signature \<noteq> [] \<and> verifyPaystackSignature env (text_body req) signature)"

text \<open>The example request with a signature that is not the digest of its body.\<close>

definition forged_request :: request where
  "forged_request = \<lparr>text_body = example_body, x_paystack_signature = Some ''abc''\<rparr>"


text \<open>
  An order of customer \<open>u1\<close>, the store that returns it, and two signed-in users.
\<close>

definition example_order :: Order where
  "example_order =
     \<lparr>order_id = ''o1'', orderNumber = ''GBZ-0001'', customerId = ''u1'',
      totalAmount = 250000, discountAmount = 25000, finalAmount = 225000\<rparr>"





text \<open>
  A stand-in for \<open>formatNairaFromKobo\<close> (\<open>@/lib/validations\<close>) on the amounts of the
  example. The theorem on the totals is about every formatter.
\<close>

definition example_format :: "int \<Rightarrow> string" where
  "example_format n =
     (case map_of [(250000, ''N2,500.00''), (25000, ''N250.00''), (225000, ''N2,250.00'')] n of
        None \<Rightarrow> []
      | Some t \<Rightarrow> t)"

text \<open>
  The environment of the examples with a payment-status write that reports failure and
  changes nothing.
\<close>

definition failing_write_env :: "store env" where
  "failing_write_env =
     example_env\<lparr>updateOrderPaymentStatus := (\<lambda>orderId ps reference amt db. (Returned False, db))\<rparr>"

section \<open>Reading properties\<close>

lemma member_None_iff: "member v k = None \<longleftrightarrow> v = Undefined \<or> v = JNull"
  by (cases v) (auto split: option.splits)

lemma member_total: "member v k = Some x \<Longrightarrow> \<exists>y. member v k' = Some y"
  using member_None_iff [of v k] member_None_iff [of v k'] by (cases "member v k'") auto

lemma opt_member_Some: "member v k = Some x \<Longrightarrow> opt_member v k = x"
  by (simp add: opt_member_def)

section \<open>The two halves of the route\<close>

text \<open>Without a valid signature the route answers 400 and hands the state back.\<close>

lemma POST_unsigned:
  "\<not> validly_signed env req \<Longrightarrow>
     POST env req s = (error_response 400 ''Missing signature'', s)
   \<or> POST env req s = (error_response 400 ''Invalid signature'', s)"
  by (auto simp: POST_def validly_signed_def split: option.splits)

text \<open>With one, it parses the body and dispatches on the event type.\<close>

lemma POST_signed:
  "validly_signed env req \<Longrightarrow>
   POST env req s =
     (case JSON_parse env (text_body req) of
        None \<Rightarrow> (error_response 500 ''Webhook processing failed'', s)
      | Some event \<Rightarrow>
          (case (member event ''event'', member event ''data'') of
             (Some ty, Some d) \<Rightarrow>
               if ty = JStr ''charge.success''
               then (success_response, handlePaymentSuccess env d s)
               else if ty = JStr ''charge.failed''
               then (success_response, handlePaymentFailed env d s)
               else if ty = JStr ''transfer.success''
               then (success_response, handleTransferSuccess env d s)
               else if ty = JStr ''transfer.failed''
               then (success_response, handleTransferFailed env d s)
               else (success_response, s)
           | _ \<Rightarrow> (error_response 500 ''Webhook processing failed'', s)))"
  by (auto simp: POST_def validly_signed_def split: option.splits)

lemma example_env_simps:
  "PAYSTACK_SECRET_KEY example_env = Some ''sk_test''"
  "hmac_sha512_hex example_env = example_hmac"
  "JSON_parse example_env = example_parse"
  by (simp_all add: example_env_def store_env_def)

lemma signed_request_valid: "validly_signed example_env (signed_request b)"
  by (simp add: validly_signed_def signed_request_def verifyPaystackSignature_def
      example_env_simps example_hmac_def)

lemma example_parse_body: "example_parse example_body = Some example_event"
  by (simp add: example_parse_def)

lemma signed_request_body: "text_body (signed_request b) = b"
  by (simp add: signed_request_def)

lemma example_parsed: "JSON_parse example_env (text_body (signed_request example_body)) = Some example_event"
  by (simp add: example_env_simps signed_request_body example_parse_body)

section \<open>Rejection of unsigned and wrongly signed requests\<close>

text \<open>
  Claim C1. A POST whose \<open>x-paystack-signature\<close> header is missing (or empty) or does not
  verify against the body is answered with HTTP 400 and an error body, and the state
  comes back as it went in: no database write, no notification call.
\<close>

theorem invalid_signature_rejected:
  assumes "\<not> validly_signed env req"
  shows "\<exists>msg. POST env req s = (error_response 400 msg, s)"
  using POST_unsigned [OF assms, of s] by auto

theorem invalid_signature_rejected_witness:
  "\<not> validly_signed example_env forged_request
   \<and> (\<exists>msg. POST example_env forged_request example_sys = (error_response 400 msg, example_sys))"
proof -
  have h: "\<not> validly_signed example_env forged_request"
    by (simp add: validly_signed_def forged_request_def verifyPaystackSignature_def
        example_env_simps example_hmac_def)
  from invalid_signature_rejected [OF h, of example_sys] h show ?thesis by simp
qed

text \<open>
  Claim C2. With the secret \<open>S\<close> configured, \<open>verifyPaystackSignature\<close> accepts a
  signature exactly when \<open>S\<close> is not empty and the signature is, character for character,
  the hex digest of the body under \<open>S\<close>; a request whose header is anything else is
  answered with HTTP 400.
\<close>

theorem signature_must_equal_digest:
  assumes "PAYSTACK_SECRET_KEY env = Some S"
  shows "(verifyPaystackSignature env B signature
            \<longleftrightarrow> S \<noteq> [] \<and> signature = hmac_sha512_hex env S B)
       \<and> (x_paystack_signature req \<noteq> Some (hmac_sha512_hex env S (text_body req))
            \<longrightarrow> (\<exists>msg. POST env req s = (error_response 400 msg, s)))"
proof -
  have v: "\<And>b g. verifyPaystackSignature env b g \<longleftrightarrow> S \<noteq> [] \<and> g = hmac_sha512_hex env S b"
    using assms by (auto simp: verifyPaystackSignature_def)
  have "\<not> validly_signed env req"
    if "x_paystack_signature req \<noteq> Some (hmac_sha512_hex env S (text_body req))"
    using that by (auto simp: validly_signed_def v split: option.splits)
  with POST_unsigned [of env req s] v show ?thesis by auto
qed

theorem signature_must_equal_digest_witness:
  "PAYSTACK_SECRET_KEY example_env = Some ''sk_test''
   \<and> verifyPaystackSignature example_env example_body (example_hmac ''sk_test'' example_body)
   \<and> \<not> verifyPaystackSignature example_env example_body ''abc''
   \<and> (\<exists>msg. POST example_env forged_request example_sys = (error_response 400 msg, example_sys))"
proof -
  have k: "PAYSTACK_SECRET_KEY example_env = Some ''sk_test''"
    by (simp add: example_env_simps)
  have d: "x_paystack_signature forged_request
             \<noteq> Some (hmac_sha512_hex example_env ''sk_test'' (text_body forged_request))"
    by (simp add: forged_request_def example_env_simps example_hmac_def)
  have n: "''abc'' \<noteq> example_hmac ''sk_test'' example_body"
    by (simp add: example_hmac_def)
  from signature_must_equal_digest [OF k, of example_body "example_hmac ''sk_test'' example_body"]
    signature_must_equal_digest [OF k, of example_body "''abc''" forged_request example_sys]
    k d n
  show ?thesis by (simp add: example_env_simps)
qed

text \<open>
  Claim C9. With \<open>PAYSTACK_SECRET_KEY\<close> unset, \<open>verifyPaystackSignature\<close> is false for
  every body and signature, and every request, whatever its header, is answered with
  HTTP 400.
\<close>

theorem unset_secret_rejects_all:
  assumes "PAYSTACK_SECRET_KEY env = None"
  shows "\<not> verifyPaystackSignature env B signature
       \<and> (\<exists>msg. POST env req s = (error_response 400 msg, s))"
proof -
  have v: "\<And>b g. \<not> verifyPaystackSignature env b g"
    using assms by (simp add: verifyPaystackSignature_def)
  then have "\<not> validly_signed env req"
    by (simp add: validly_signed_def split: option.splits)
  with POST_unsigned [of env req s] v show ?thesis by auto
qed

theorem unset_secret_rejects_all_witness:
  "PAYSTACK_SECRET_KEY (example_env\<lparr>PAYSTACK_SECRET_KEY := None\<rparr>) = None
   \<and> \<not> verifyPaystackSignature (example_env\<lparr>PAYSTACK_SECRET_KEY := None\<rparr>) example_body
         (example_hmac ''sk_test'' example_body)
   \<and> (\<exists>msg. POST (example_env\<lparr>PAYSTACK_SECRET_KEY := None\<rparr>) (signed_request example_body)
               example_sys = (error_response 400 msg, example_sys))"
proof -
  have k: "PAYSTACK_SECRET_KEY (example_env\<lparr>PAYSTACK_SECRET_KEY := None\<rparr>) = None"
    by simp
  from unset_secret_rejects_all [OF k, of example_body "example_hmac ''sk_test'' example_body"
      "signed_request example_body" example_sys] k
  show ?thesis by simp
qed

section \<open>The answer to a signed request\<close>

text \<open>
  Claim C5, as stated, fails: a validly signed request whose body is not JSON (here the
  empty body) reaches the outer \<open>catch\<close> and is answered with HTTP 500.
\<close>

theorem signed_request_always_200_counterexample:
  "validly_signed example_env (signed_request [])
   \<and> fst (POST example_env (signed_request []) example_sys)
       = error_response 500 ''Webhook processing failed''"
proof -
  have "example_parse [] = None"
    by (simp add: example_parse_def example_body_def failed_body_def reminder_body_def)
  moreover have "text_body (signed_request []) = []"
    by (simp add: signed_request_def)
  ultimately show ?thesis
    by (simp add: POST_signed signed_request_valid example_env_simps)
qed

text \<open>
  Claim C5, amended. A validly signed request whose body parses to a value other than
  \<open>null\<close> is answered with HTTP 200 and \<open>{status: "success"}\<close>, whatever the event type
  and whatever the services called by the event handler do, throwing included. A validly
  signed request whose body does not parse, or parses to \<open>null\<close>, is answered with HTTP
  500. (\<open>JSON.parse\<close> never gives \<open>undefined\<close>; the model's values include it, and reading
  a property of it throws as for \<open>null\<close>.)
\<close>

theorem signed_parsed_request_200:
  assumes "validly_signed env req"
  shows "fst (POST env req s) =
           (case JSON_parse env (text_body req) of
              None \<Rightarrow> error_response 500 ''Webhook processing failed''
            | Some event \<Rightarrow>
                if event = JNull \<or> event = Undefined
                then error_response 500 ''Webhook processing failed''
                else success_response)"
proof (cases "JSON_parse env (text_body req)")
  case None
  with assms show ?thesis by (simp add: POST_signed)
next
  case (Some event)
  show ?thesis
  proof (cases "event = JNull \<or> event = Undefined")
    case True
    then have "member event ''event'' = None"
      by (auto simp: member_None_iff)
    with assms Some True show ?thesis by (simp add: POST_signed)
  next
    case False
    then obtain ty d
      where "member event ''event'' = Some ty" "member event ''data'' = Some d"
      using member_None_iff by (metis option.exhaust)
    with assms Some False show ?thesis by (simp add: POST_signed)
  qed
qed

text \<open>The example request is such a request, and is answered with 200.\<close>

theorem signed_parsed_request_200_witness:
  "validly_signed example_env (signed_request example_body)
   \<and> fst (POST example_env (signed_request example_body) example_sys) = success_response"
proof -
  have n: "example_event \<noteq> JNull" "example_event \<noteq> Undefined"
    by (simp_all add: example_event_def)
  from signed_parsed_request_200 [OF signed_request_valid, of example_body example_sys]
    signed_request_valid n
  show ?thesis by (simp add: example_parsed)
qed

section \<open>What the two charge handlers do\<close>

lemma truthy_opt_member:
  "truthy (opt_member v k) \<Longrightarrow> member v k' = Some (opt_member v k')"
  by (cases "member v k'"; cases "member v k") (auto simp: opt_member_def member_None_iff)

lemma member_opt_member:
  "member v k = Some x \<Longrightarrow> member v k' = Some (opt_member v k')"
  by (cases "member v k'") (auto simp: opt_member_def member_None_iff)

lemma handlePaymentSuccess_skip:
  "\<not> truthy (opt_member (opt_member d ''metadata'') ''orderId'')
     \<Longrightarrow> handlePaymentSuccess env d s = s"
  by (auto simp: handlePaymentSuccess_def opt_member_def split: option.splits)

lemma handlePaymentSuccess_run:
  assumes "truthy (opt_member (opt_member d ''metadata'') ''orderId'')"
  shows "handlePaymentSuccess env d s =
     (let metadata = opt_member d ''metadata'';
          orderId = opt_member metadata ''orderId'';
          reference = opt_member d ''reference'';
          amt = opt_member d ''amount'';
          customerPhone = opt_member metadata ''customerPhone'';
          customerName = opt_member metadata ''customerName'';
          orderNumber = opt_member metadata ''orderNumber''
      in case invoke (UpdateOrderPaymentStatus orderId PAID reference amt)
                (updateOrderPaymentStatus env orderId PAID reference amt) s of
           (Threw, s1) \<Rightarrow> s1
         | (Returned ok, s1) \<Rightarrow>
             if ok then
               (case invoke (UpdateOrderStatus orderId CONFIRMED ''system''
                               ''Payment confirmed - Order ready for pickup'')
                       (updateOrderStatus env orderId CONFIRMED ''system''
                          ''Payment confirmed - Order ready for pickup'') s1 of
                  (Threw, s2) \<Rightarrow> s2
                | (Returned r, s2) \<Rightarrow>
                    if truthy customerPhone \<and> truthy customerName then
                      snd (invoke (SendPickupConfirmation customerPhone customerName
                                     (js_or orderNumber orderId))
                             (sendPickupConfirmation env customerPhone customerName
                                (js_or orderNumber orderId)) s2)
                    else s2)
             else s1)"
proof -
  let ?m = "opt_member d ''metadata''"
  have m: "\<And>k. member ?m k = Some (opt_member ?m k)"
    using assms by (rule truthy_opt_member)
  have "?m \<noteq> Undefined"
    using assms by (auto simp: opt_member_def)
  then obtain x where "member d ''metadata'' = Some x"
    by (cases "member d ''metadata''") (auto simp: opt_member_def)
  then have dd: "\<And>k. member d k = Some (opt_member d k)"
    by (rule member_opt_member)
  show ?thesis
    using assms by (simp add: handlePaymentSuccess_def m dd Let_def)
qed

lemma handlePaymentFailed_skip:
  "\<not> truthy (opt_member (opt_member d ''metadata'') ''orderId'')
     \<Longrightarrow> handlePaymentFailed env d s = s"
  by (auto simp: handlePaymentFailed_def opt_member_def split: option.splits)

lemma handlePaymentFailed_run:
  assumes "truthy (opt_member (opt_member d ''metadata'') ''orderId'')"
  shows "handlePaymentFailed env d s =
     (let metadata = opt_member d ''metadata'';
          orderId = opt_member metadata ''orderId'';
          reference = opt_member d ''reference'';
          customerPhone = opt_member metadata ''customerPhone'';
          customerName = opt_member metadata ''customerName'';
          orderNumber = opt_member metadata ''orderNumber'';
          amt = opt_member metadata ''amount''
      in case invoke (UpdateOrderPaymentStatus orderId FAILED reference (JNum 0))
                (updateOrderPaymentStatus env orderId FAILED reference (JNum 0)) s of
           (Threw, s1) \<Rightarrow> s1
         | (Returned r, s1) \<Rightarrow>
             if truthy customerPhone \<and> truthy customerName then
               snd (invoke (SendPaymentReminder customerPhone customerName
                              (js_or orderNumber orderId) (js_or amt (JNum 0)))
                      (sendPaymentReminder env customerPhone customerName
                         (js_or orderNumber orderId) (js_or amt (JNum 0))) s1)
             else s1)"
proof -
  let ?m = "opt_member d ''metadata''"
  have m: "\<And>k. member ?m k = Some (opt_member ?m k)"
    using assms by (rule truthy_opt_member)
  have "?m \<noteq> Undefined"
    using assms by (auto simp: opt_member_def)
  then obtain x where "member d ''metadata'' = Some x"
    by (cases "member d ''metadata''") (auto simp: opt_member_def)
  then have dd: "\<And>k. member d k = Some (opt_member d k)"
    by (rule member_opt_member)
  show ?thesis
    using assms by (simp add: handlePaymentFailed_def m dd Let_def)
qed

lemma POST_charge_success:
  assumes "validly_signed env req"
    and "JSON_parse env (text_body req) = Some event"
    and "member event ''event'' = Some (JStr ''charge.success'')"
  shows "POST env req s = (success_response, handlePaymentSuccess env (opt_member event ''data'') s)"
  using assms member_opt_member [OF assms(3), of "''data''"] by (simp add: POST_signed)

lemma POST_charge_failed:
  assumes "validly_signed env req"
    and "JSON_parse env (text_body req) = Some event"
    and "member event ''event'' = Some (JStr ''charge.failed'')"
  shows "POST env req s = (success_response, handlePaymentFailed env (opt_member event ''data'') s)"
  using assms member_opt_member [OF assms(3), of "''data''"] by (simp add: POST_signed)

lemma example_event_reads:
  "member example_event ''event'' = Some (JStr ''charge.success'')"
  "opt_member (opt_member example_event ''data'') ''reference'' = JStr ''abc123''"
  "opt_member (opt_member example_event ''data'') ''amount'' = Undefined"
  "opt_member (opt_member example_event ''data'') ''metadata'' = example_metadata"
  "opt_member example_metadata ''orderId'' = JStr ''o1''"
  "opt_member example_metadata ''customerPhone'' = JStr ''+2348000000000''"
  "opt_member example_metadata ''customerName'' = JStr ''Ada''"
  "opt_member example_metadata ''orderNumber'' = Undefined"
  by (simp_all add: example_event_def example_metadata_def opt_member_def)

lemma store_env_simps:
  "updateOrderPaymentStatus (store_env secret hmac parse pickup reminder) = store_updateOrderPaymentStatus"
  "updateOrderStatus (store_env secret hmac parse pickup reminder) = store_updateOrderStatus"
  "sendPickupConfirmation (store_env secret hmac parse pickup reminder) = (\<lambda>phone name number db. (pickup, db))"
  "sendPaymentReminder (store_env secret hmac parse pickup reminder) = (\<lambda>phone name number amt db. (reminder, db))"
  "JSON_parse (store_env secret hmac parse pickup reminder) = parse"
  by (simp_all add: store_env_def)

lemma store_success_run:
  assumes "opt_member (opt_member d ''metadata'') ''orderId'' = JStr k" and "k \<noteq> []"
    and "world s k = Some doc"
  shows "\<exists>cs. \<forall>s'. world s' k = Some doc \<or> world s' k = Some (doc\<lparr>paymentStatus := PAID, status := CONFIRMED\<rparr>) \<longrightarrow>
     handlePaymentSuccess (store_env secret hmac parse pickup reminder) d s' =
       \<lparr>world = (world s')(k \<mapsto> doc\<lparr>paymentStatus := PAID, status := CONFIRMED\<rparr>),
        calls = calls s' @
          UpdateOrderPaymentStatus (JStr k) PAID (opt_member d ''reference'') (opt_member d ''amount'')
          # UpdateOrderStatus (JStr k) CONFIRMED ''system'' ''Payment confirmed - Order ready for pickup''
          # cs\<rparr>"
proof -
  have t: "truthy (opt_member (opt_member d ''metadata'') ''orderId'')"
    using assms(1,2) by simp
  show ?thesis
  proof (cases "truthy (opt_member (opt_member d ''metadata'') ''customerPhone'')
              \<and> truthy (opt_member (opt_member d ''metadata'') ''customerName'')")
    case True
    show ?thesis
      apply (rule exI [of _ "[SendPickupConfirmation (opt_member (opt_member d ''metadata'') ''customerPhone'')
           (opt_member (opt_member d ''metadata'') ''customerName'')
           (js_or (opt_member (opt_member d ''metadata'') ''orderNumber'') (JStr k))]"])
      using True assms(1)
      by (auto simp: handlePaymentSuccess_run [OF t] Let_def invoke_def store_env_simps
          store_updateOrderPaymentStatus_def store_updateOrderStatus_def split: outcome.splits)
  next
    case False
    show ?thesis
      apply (rule exI [of _ "[]"])
      using False assms(1)
      by (auto simp: handlePaymentSuccess_run [OF t] Let_def invoke_def store_env_simps
          store_updateOrderPaymentStatus_def store_updateOrderStatus_def split: outcome.splits)
  qed
qed

lemma reminder_event_reads:
  "member reminder_event ''event'' = Some (JStr ''charge.failed'')"
  "opt_member (opt_member reminder_event ''data'') ''reference'' = JStr ''abc125''"
  "opt_member (opt_member (opt_member reminder_event ''data'') ''metadata'') ''orderId'' = JStr ''o1''"
  "opt_member (opt_member (opt_member reminder_event ''data'') ''metadata'') ''customerPhone'' = JStr ''+2348000000000''"
  "opt_member (opt_member (opt_member reminder_event ''data'') ''metadata'') ''customerName'' = JStr ''Ada''"
  "opt_member (opt_member (opt_member reminder_event ''data'') ''metadata'') ''orderNumber'' = Undefined"
  "opt_member (opt_member (opt_member reminder_event ''data'') ''metadata'') ''amount'' = JNum 250000"
  by (simp_all add: reminder_event_def opt_member_def)

section \<open>A successful charge\<close>




text \<open>
  Claim C10. For a validly signed \<open>charge.success\<close> event the answer is HTTP 200 in
  every case. When the metadata carries no (truthy) \<open>orderId\<close>, nothing is called and
  the state is unchanged. When the payment-status write does not report success (it
  returns \<open>success = false\<close>, or throws), the state afterwards is the one that write
  alone leaves: the outside world as the write left it and the write as the only call;
  no status write and no notification happen.
\<close>

theorem payment_success_gated_on_write:
  fixes env :: "'w env" and event :: js
  defines "d \<equiv> opt_member event ''data''"
  defines "orderId \<equiv> opt_member (opt_member d ''metadata'') ''orderId''"
  assumes signed: "validly_signed env req"
    and parsed: "JSON_parse env (text_body req) = Some event"
    and kind: "member event ''event'' = Some (JStr ''charge.success'')"
  shows "fst (POST env req s) = success_response
       \<and> (\<not> truthy orderId \<longrightarrow> snd (POST env req s) = s)
       \<and> (truthy orderId
            \<and> fst (updateOrderPaymentStatus env orderId PAID (opt_member d ''reference'')
                     (opt_member d ''amount'') (world s)) \<noteq> Returned True
          \<longrightarrow> snd (POST env req s) =
                \<lparr>world = snd (updateOrderPaymentStatus env orderId PAID (opt_member d ''reference'')
                                (opt_member d ''amount'') (world s)),
                 calls = calls s @ [UpdateOrderPaymentStatus orderId PAID (opt_member d ''reference'')
                                      (opt_member d ''amount'')]\<rparr>)"
proof -
  have p: "POST env req s
             = (success_response, handlePaymentSuccess env (opt_member event ''data'') s)"
    using signed parsed kind by (rule POST_charge_success)
  show ?thesis
    unfolding orderId_def d_def
    by (auto simp: p handlePaymentSuccess_skip handlePaymentSuccess_run invoke_def Let_def
        split: prod.splits outcome.splits)
qed

theorem payment_success_gated_on_write_witness:
  "validly_signed failing_write_env (signed_request example_body)
   \<and> world example_sys ''o1''
       = Some \<lparr>paymentStatus = PENDING, status = OtherOrderStatus ''pending''\<rparr>
   \<and> POST failing_write_env (signed_request example_body) example_sys =
       (success_response,
        \<lparr>world = world example_sys,
         calls = [UpdateOrderPaymentStatus (JStr ''o1'') PAID (JStr ''abc123'') Undefined]\<rparr>)"
proof -
  have v: "validly_signed failing_write_env (signed_request example_body)"
    by (simp add: validly_signed_def signed_request_def verifyPaystackSignature_def
        failing_write_env_def example_env_simps example_hmac_def)
  have q: "JSON_parse failing_write_env (text_body (signed_request example_body)) = Some example_event"
    using example_parsed by (simp add: failing_write_env_def)
  have a: "updateOrderPaymentStatus failing_write_env (JStr ''o1'') PAID (JStr ''abc123'') Undefined
             (world example_sys) = (Returned False, world example_sys)"
    by (simp add: failing_write_env_def)
  have w: "world example_sys ''o1''
       = Some \<lparr>paymentStatus = PENDING, status = OtherOrderStatus ''pending''\<rparr>"
    by (simp add: example_sys_def example_store_def)
  have c: "calls example_sys = []"
    by (simp add: example_sys_def)
  from payment_success_gated_on_write [OF v q example_event_reads(1), of example_sys] a v w c
  show ?thesis
    by (simp add: example_event_reads prod_eq_iff)
qed

section \<open>Replaying a successful charge\<close>

text \<open>
  Claim C6. Over the document store, processing the same validly signed \<open>charge.success\<close>
  request for an order that the store holds a second time answers 200 again, makes the
  same calls again (the two writes first), and leaves the store as the first processing
  left it, with the order's payment status \<open>PAID\<close> and its status \<open>CONFIRMED\<close>: nothing
  skips the second processing.
\<close>

theorem replay_reapplies_same_writes:
  fixes secret hmac parse pickup reminder req s
  defines "env \<equiv> store_env secret hmac parse pickup reminder"
  defines "s1 \<equiv> snd (POST env req s)"
  defines "s2 \<equiv> snd (POST env req s1)"
  assumes "validly_signed env req"
    and "parse (text_body req) = Some event"
    and "member event ''event'' = Some (JStr ''charge.success'')"
    and "opt_member (opt_member (opt_member event ''data'') ''metadata'') ''orderId'' = JStr k"
    and "k \<noteq> []"
    and "world s k = Some doc"
  shows "fst (POST env req s) = success_response
       \<and> fst (POST env req s1) = success_response
       \<and> world s1 = (world s)(k \<mapsto> doc\<lparr>paymentStatus := PAID, status := CONFIRMED\<rparr>)
       \<and> world s2 = world s1
       \<and> (\<exists>cs. calls s1 = calls s @ cs \<and> calls s2 = calls s1 @ cs
               \<and> take 2 cs =
                   [UpdateOrderPaymentStatus (JStr k) PAID
                      (opt_member (opt_member event ''data'') ''reference'')
                      (opt_member (opt_member event ''data'') ''amount''),
                    UpdateOrderStatus (JStr k) CONFIRMED ''system''
                      ''Payment confirmed - Order ready for pickup''])"
proof -
  let ?d = "opt_member event ''data''"
  have q: "JSON_parse env (text_body req) = Some event"
    using assms(5) by (simp add: env_def store_env_simps)
  have p: "\<And>t. POST env req t = (success_response, handlePaymentSuccess env ?d t)"
    using assms(4) q assms(6) by (rule POST_charge_success)
  from store_success_run [OF assms(7,8,9), of secret hmac parse pickup reminder]
  obtain cs where run: "\<And>t. world t k = Some doc
        \<or> world t k = Some (doc\<lparr>paymentStatus := PAID, status := CONFIRMED\<rparr>) \<Longrightarrow>
      handlePaymentSuccess env ?d t =
        \<lparr>world = (world t)(k \<mapsto> doc\<lparr>paymentStatus := PAID, status := CONFIRMED\<rparr>),
         calls = calls t @
           UpdateOrderPaymentStatus (JStr k) PAID (opt_member ?d ''reference'') (opt_member ?d ''amount'')
           # UpdateOrderStatus (JStr k) CONFIRMED ''system'' ''Payment confirmed - Order ready for pickup''
           # cs\<rparr>"
    unfolding env_def by blast
  have r1: "s1 = \<lparr>world = (world s)(k \<mapsto> doc\<lparr>paymentStatus := PAID, status := CONFIRMED\<rparr>),
         calls = calls s @
           UpdateOrderPaymentStatus (JStr k) PAID (opt_member ?d ''reference'') (opt_member ?d ''amount'')
           # UpdateOrderStatus (JStr k) CONFIRMED ''system'' ''Payment confirmed - Order ready for pickup''
           # cs\<rparr>"
    using run [of s] assms(9) by (simp add: s1_def p)
  have "world s1 k = Some (doc\<lparr>paymentStatus := PAID, status := CONFIRMED\<rparr>)"
    by (simp add: r1)
  then have r2: "s2 = \<lparr>world = (world s1)(k \<mapsto> doc\<lparr>paymentStatus := PAID, status := CONFIRMED\<rparr>),
         calls = calls s1 @
           UpdateOrderPaymentStatus (JStr k) PAID (opt_member ?d ''reference'') (opt_member ?d ''amount'')
           # UpdateOrderStatus (JStr k) CONFIRMED ''system'' ''Payment confirmed - Order ready for pickup''
           # cs\<rparr>"
    using run [of s1] by (simp add: s2_def p)
  have w: "world s2 = world s1"
    by (simp add: r2) (simp add: r1)
  show ?thesis
    apply (simp add: p w)
    apply (intro conjI)
     apply (simp add: r1)
    apply (rule exI [of _ "UpdateOrderPaymentStatus (JStr k) PAID (opt_member ?d ''reference'') (opt_member ?d ''amount'')
           # UpdateOrderStatus (JStr k) CONFIRMED ''system'' ''Payment confirmed - Order ready for pickup''
           # cs"])
    apply (simp add: r2)
    apply (simp add: r1)
    done
qed

theorem replay_reapplies_same_writes_witness:
  "validly_signed example_env (signed_request example_body)
   \<and> world (snd (POST example_env (signed_request example_body) example_sys)) ''o1''
       = Some \<lparr>paymentStatus = PAID, status = CONFIRMED\<rparr>
   \<and> world (snd (POST example_env (signed_request example_body)
              (snd (POST example_env (signed_request example_body) example_sys))))
       = world (snd (POST example_env (signed_request example_body) example_sys))
   \<and> calls (snd (POST example_env (signed_request example_body)
              (snd (POST example_env (signed_request example_body) example_sys))))
       = calls (snd (POST example_env (signed_request example_body) example_sys))
         @ calls (snd (POST example_env (signed_request example_body) example_sys))"
proof -
  have v: "validly_signed (store_env (Some ''sk_test'') example_hmac example_parse (Returned True) (Returned True))
             (signed_request example_body)"
    using signed_request_valid [of example_body] by (simp add: example_env_def)
  have q: "example_parse (text_body (signed_request example_body)) = Some example_event"
    by (simp add: signed_request_body example_parse_body)
  have k: "opt_member (opt_member (opt_member example_event ''data'') ''metadata'') ''orderId'' = JStr ''o1''"
    by (simp add: example_event_reads)
  have n: "''o1'' \<noteq> []" by simp
  have d: "world example_sys ''o1'' = Some \<lparr>paymentStatus = PENDING, status = OtherOrderStatus ''pending''\<rparr>"
    by (simp add: example_sys_def example_store_def)
  from replay_reapplies_same_writes [OF v q example_event_reads(1) k n d]
    signed_request_valid [of example_body]
  show ?thesis by (auto simp: example_env_def example_sys_def)
qed

section \<open>A failed charge\<close>

text \<open>
  Claim C4, as stated, fails: a validly signed \<open>charge.failed\<close> event whose metadata
  carries an \<open>orderId\<close> but no customer phone and name leads to the write of the failed
  payment status and to no notification at all.
\<close>

theorem charge_failed_always_notifies_counterexample:
  "validly_signed example_env (signed_request failed_body)
   \<and> truthy (opt_member (opt_member (opt_member failed_event ''data'') ''metadata'') ''orderId'')
   \<and> POST example_env (signed_request failed_body) example_sys =
       (success_response,
        \<lparr>world = example_store(''o1'' \<mapsto>
                   \<lparr>paymentStatus = FAILED, status = OtherOrderStatus ''pending''\<rparr>),
         calls = [UpdateOrderPaymentStatus (JStr ''o1'') FAILED (JStr ''abc124'') (JNum 0)]\<rparr>)"
proof -
  have b: "text_body (signed_request failed_body) = failed_body"
    by (simp add: signed_request_def)
  have q: "example_parse failed_body = Some failed_event"
    by (simp add: example_parse_def example_body_def failed_body_def)
  have e: "member failed_event ''event'' = Some (JStr ''charge.failed'')"
    by (simp add: failed_event_def)
  have p: "POST example_env (signed_request failed_body) example_sys
             = (success_response, handlePaymentFailed example_env (opt_member failed_event ''data'') example_sys)"
    by (rule POST_charge_failed [OF signed_request_valid _ e]) (simp add: b q example_env_simps)
  have t: "truthy (opt_member (opt_member (opt_member failed_event ''data'') ''metadata'') ''orderId'')"
    by (simp add: failed_event_def opt_member_def)
  have "handlePaymentFailed example_env (opt_member failed_event ''data'') example_sys
          = \<lparr>world = example_store(''o1'' \<mapsto>
                   \<lparr>paymentStatus = FAILED, status = OtherOrderStatus ''pending''\<rparr>),
         calls = [UpdateOrderPaymentStatus (JStr ''o1'') FAILED (JStr ''abc124'') (JNum 0)]\<rparr>"
    by (simp add: handlePaymentFailed_run [OF t] Let_def)
       (simp add: failed_event_def opt_member_def invoke_def example_env_def store_env_def
         store_updateOrderPaymentStatus_def example_sys_def example_store_def)
  with t show ?thesis by (simp add: p signed_request_valid)
qed

text \<open>
  Claim C4, amended. For a validly signed \<open>charge.failed\<close> event whose metadata carries a
  (truthy) \<open>orderId\<close>, the answer is HTTP 200 and the handler first writes payment status
  \<open>FAILED\<close> for that order. It then sends a payment reminder exactly when that write
  did not throw and the metadata carries a customer phone and a customer name; otherwise
  the write is the only call. The outside world is the one these calls leave and the
  log holds these calls and no other, so the notification is the payment reminder and
  never the pickup confirmation of a successful charge.
\<close>

theorem charge_failed_write_then_reminder:
  fixes env :: "'w env" and event :: js
  defines "metadata \<equiv> opt_member (opt_member event ''data'') ''metadata''"
  defines "orderId \<equiv> opt_member metadata ''orderId''"
  defines "reference \<equiv> opt_member (opt_member event ''data'') ''reference''"
  defines "customerPhone \<equiv> opt_member metadata ''customerPhone''"
  defines "customerName \<equiv> opt_member metadata ''customerName''"
  defines "number \<equiv> js_or (opt_member metadata ''orderNumber'') orderId"
  defines "amt \<equiv> js_or (opt_member metadata ''amount'') (JNum 0)"
  assumes signed: "validly_signed env req"
    and parsed: "JSON_parse env (text_body req) = Some event"
    and kind: "member event ''event'' = Some (JStr ''charge.failed'')"
    and carried: "truthy orderId"
  shows "POST env req s =
          (success_response,
           (case updateOrderPaymentStatus env orderId FAILED reference (JNum 0) (world s) of
              (Threw, w1) \<Rightarrow>
                \<lparr>world = w1,
                 calls = calls s @ [UpdateOrderPaymentStatus orderId FAILED reference (JNum 0)]\<rparr>
            | (Returned r, w1) \<Rightarrow>
                if truthy customerPhone \<and> truthy customerName
                then \<lparr>world = snd (sendPaymentReminder env customerPhone customerName number amt w1),
                      calls = calls s @
                        [UpdateOrderPaymentStatus orderId FAILED reference (JNum 0),
                         SendPaymentReminder customerPhone customerName number amt]\<rparr>
                else \<lparr>world = w1,
                      calls = calls s @
                        [UpdateOrderPaymentStatus orderId FAILED reference (JNum 0)]\<rparr>))"
proof -
  have p: "POST env req s
             = (success_response, handlePaymentFailed env (opt_member event ''data'') s)"
    using signed parsed kind by (rule POST_charge_failed)
  have t: "truthy (opt_member (opt_member (opt_member event ''data'') ''metadata'') ''orderId'')"
    using carried by (simp add: orderId_def metadata_def)
  show ?thesis
    unfolding orderId_def amt_def number_def customerPhone_def customerName_def
      reference_def metadata_def
    by (auto simp: p handlePaymentFailed_run [OF t] invoke_def Let_def
        split: prod.splits outcome.splits)
qed

theorem charge_failed_write_then_reminder_witness:
  "validly_signed example_env (signed_request reminder_body)
   \<and> POST example_env (signed_request reminder_body) example_sys =
       (success_response,
        \<lparr>world = example_store(''o1'' \<mapsto>
                   \<lparr>paymentStatus = FAILED, status = OtherOrderStatus ''pending''\<rparr>),
         calls =
           [UpdateOrderPaymentStatus (JStr ''o1'') FAILED (JStr ''abc125'') (JNum 0),
            SendPaymentReminder (JStr ''+2348000000000'') (JStr ''Ada'') (JStr ''o1'')
              (JNum 250000)]\<rparr>)"
proof -
  have "example_parse reminder_body = Some reminder_event"
    by (simp add: example_parse_def example_body_def failed_body_def reminder_body_def)
  then have q: "JSON_parse example_env (text_body (signed_request reminder_body)) = Some reminder_event"
    by (simp add: example_env_simps signed_request_body)
  have t: "truthy (opt_member (opt_member (opt_member reminder_event ''data'') ''metadata'') ''orderId'')"
    by (simp add: reminder_event_reads)
  have a: "updateOrderPaymentStatus example_env (JStr ''o1'') FAILED (JStr ''abc125'') (JNum 0)
             (world example_sys)
           = (Returned True, example_store(''o1'' \<mapsto>
                   \<lparr>paymentStatus = FAILED, status = OtherOrderStatus ''pending''\<rparr>))"
    by (simp add: example_env_def store_env_def store_updateOrderPaymentStatus_def
        example_sys_def example_store_def)
  have n: "\<And>p n k m w. sendPaymentReminder example_env p n k m w = (Returned True, w)"
    by (simp add: example_env_def store_env_def)
  from charge_failed_write_then_reminder [OF signed_request_valid q reminder_event_reads(1) t, of example_sys] a
    signed_request_valid [of reminder_body]
  show ?thesis by (simp add: reminder_event_reads js_or_def example_sys_def n)
qed

section \<open>Who sees a receipt\<close>












section \<open>The amounts on a receipt\<close>

text \<open>
  Claim C8. For every order of the data model, that is, whose stored amounts satisfy
  \<open>totalAmount - discountAmount = finalAmount\<close>, the totals block of the receipt shows
  the formatted \<open>totalAmount\<close> on the subtotal line, the formatted \<open>discountAmount\<close> after
  a minus sign on the discount line, and on the total line the formatted difference of
  the two amounts above it. The discount line is there exactly when the discount is
  positive; without it the total line still shows \<open>totalAmount - discountAmount\<close>, which
  for a discount of zero is the subtotal.
\<close>

theorem receipt_totals_balance:
  assumes "order_invariant ord"
  shows "receipt_totals fmt ord =
           (if 0 < discountAmount ord
            then [(''Subtotal:'', fmt (totalAmount ord)),
                  (''Discount:'', ''-'' @ fmt (discountAmount ord)),
                  (''Total:'', fmt (totalAmount ord - discountAmount ord))]
            else [(''Subtotal:'', fmt (totalAmount ord)),
                  (''Total:'', fmt (totalAmount ord - discountAmount ord))])"
  using assms by (simp add: receipt_totals_def total_rows_def row_text_def order_invariant_def)

theorem receipt_totals_balance_witness:
  "order_invariant example_order
   \<and> receipt_totals example_format example_order =
        [(''Subtotal:'', ''N2,500.00''), (''Discount:'', ''-N250.00''), (''Total:'', ''N2,250.00'')]"
proof -
  have h: "order_invariant example_order"
    by (simp add: order_invariant_def example_order_def)
  from receipt_totals_balance [OF h, of example_format] h
  show ?thesis by (simp add: example_order_def example_format_def)
qed

end
